theory Spec2Isabelle
  imports Complex_Main "HOL-Library.Word" "HOL-Library.AList"
begin

section \<open>Bytes, hex strings and Node buffers\<close>

text \<open>
  A Node \<open>Buffer\<close> is a list of bytes. Hex strings (job fields, nonces, hashes) are
  ASCII and are modelled as \<open>string\<close>.
\<close>

type_synonym byte = "8 word"
type_synonym buffer = "byte list"

datatype js_error = TypeError | RangeError

text \<open>The value of one hexadecimal digit, as Node's \<open>unhex\<close> table has it.\<close>

definition hexVal :: "char \<Rightarrow> nat option" where
  "hexVal c =
     (let n = (of_char c :: nat) in
      if 48 \<le> n \<and> n \<le> 57 then Some (n - 48)
      else if 97 \<le> n \<and> n \<le> 102 then Some (n - 87)
      else if 65 \<le> n \<and> n \<le> 70 then Some (n - 55)
      else None)"

text \<open>
  Decoding with the \<open>'hex'\<close> encoding (\<open>new Buffer(s, 'hex')\<close>, \<open>buf.write(s, .., 'hex')\<close>):
  two digits give one byte; decoding stops at the first pair that is not two hex digits,
  and a trailing single character is dropped.
\<close>

fun hexDecode :: "string \<Rightarrow> buffer" where
  "hexDecode (a # b # rest) =
     (case hexVal a of
        None \<Rightarrow> []
      | Some h \<Rightarrow>
          (case hexVal b of
             None \<Rightarrow> []
           | Some l \<Rightarrow> of_nat (16 * h + l) # hexDecode rest))"
| "hexDecode _ = []"

definition isHex :: "string \<Rightarrow> bool" where
  "isHex s = list_all (\<lambda>c. hexVal c \<noteq> None) s"

text \<open>
  \<open>buf.write(string, offset, length, 'hex')\<close>: at most \<open>length\<close> decoded bytes, and no
  more than fit behind \<open>offset\<close>, overwrite the buffer from \<open>offset\<close> on. Every call in
  this program has a constant offset inside the buffer.
\<close>

definition buf_write_hex :: "buffer \<Rightarrow> string \<Rightarrow> nat \<Rightarrow> nat \<Rightarrow> buffer" where
  "buf_write_hex buf s offset len =
     (let bytes = take (min len (length buf - offset)) (hexDecode s)
      in take offset buf @ bytes @ drop (offset + length bytes) buf)"

text \<open>Big-endian and little-endian byte strings of a number, \<open>k\<close> bytes wide.\<close>

definition le_bytes :: "nat \<Rightarrow> nat \<Rightarrow> buffer" where
  "le_bytes k n = map (\<lambda>i. of_nat (n div 256 ^ i)) [0..<k]"

definition be_bytes :: "nat \<Rightarrow> nat \<Rightarrow> buffer" where
  "be_bytes k n = rev (le_bytes k n)"

text \<open>\<open>buf.writeUInt32BE(value, offset)\<close> for a value that is a uint32.\<close>

definition writeUInt32BE :: "buffer \<Rightarrow> 32 word \<Rightarrow> nat \<Rightarrow> buffer" where
  "writeUInt32BE buf v offset =
     take offset buf @ be_bytes 4 (unat v) @ drop (offset + 4) buf"

text \<open>
  \<open>buf.readUInt32LE(offset)\<close>: the four bytes from \<open>offset\<close> on, least significant
  first; it throws a \<open>RangeError\<close> when fewer than four bytes are there.
\<close>

definition le_val :: "buffer \<Rightarrow> nat" where
  "le_val bs = foldr (\<lambda>b acc. unat b + 256 * acc) bs 0"

definition readUInt32LE :: "buffer \<Rightarrow> nat \<Rightarrow> js_error + 32 word" where
  "readUInt32LE buf offset =
     (if offset + 4 \<le> length buf
      then Inr (of_nat (le_val (take 4 (drop offset buf))))
      else Inl RangeError)"

text \<open>
  Modelled from the spec: \<open>util.reverseBuffer\<close> (module \<open>util\<close> is not among the
  sources) is the full reversal of a buffer.
\<close>

definition reverseBuffer :: "buffer \<Rightarrow> buffer" where
  "reverseBuffer b = rev b"

text \<open>
  Modelled from the spec: \<open>util.varIntBuffer\<close> (module \<open>util\<close> is not among the
  sources) is Bitcoin's CompactSize: below \<open>0xfd\<close> one byte; below \<open>0x10000\<close> the byte
  \<open>0xfd\<close> and a u16 LE; below \<open>0x100000000\<close> the byte \<open>0xfe\<close> and a u32 LE; else the
  byte \<open>0xff\<close> and a u64 LE.
\<close>

definition varIntBuffer :: "nat \<Rightarrow> buffer" where
  "varIntBuffer n =
     (if n < 0xfd then [of_nat n]
      else if n < 0x10000 then 0xfd # le_bytes 2 n
      else if n < 0x100000000 then 0xfe # le_bytes 4 n
      else 0xff # le_bytes 8 n)"

section \<open>Block template (\<open>lib/blockTemplate.js\<close>)\<close>

record Transaction =
  data :: string

record RpcData =
  previousblockhash :: string
  bits :: string
  version :: "32 word"
  transactions :: "Transaction list"
  masternode_payments :: bool
  votes :: "string list"

text \<open>
  The fields of a \<open>BlockTemplate\<close> that the operations below read or write. The target,
  the difficulty, the Merkle tree and the job parameters come from modules that are not
  among the sources and are used by none of these operations.
\<close>

record BlockTemplate =
  submits :: "string list"
  rpcData :: RpcData
  jobId :: string
  reward :: string
  transactionData :: buffer
  generationTransaction :: "buffer \<times> buffer"

text \<open>
  The constructor. \<open>gen\<close> is the pair that \<open>transactions.createGeneration\<close> returns.
\<close>

definition BlockTemplate_new ::
  "string \<Rightarrow> RpcData \<Rightarrow> string \<Rightarrow> buffer \<times> buffer \<Rightarrow> BlockTemplate" where
  "BlockTemplate_new jid rpc rew gen =
     \<lparr> submits = [],
       rpcData = rpc,
       jobId = jid,
       reward = rew,
       transactionData = concat (map (\<lambda>tx. hexDecode (data tx)) (transactions rpc)),
       generationTransaction = gen \<rparr>"

definition serializeCoinbase :: "BlockTemplate \<Rightarrow> buffer \<Rightarrow> buffer \<Rightarrow> buffer" where
  "serializeCoinbase t extraNonce1 extraNonce2 =
     fst (generationTransaction t) @ extraNonce1 @ extraNonce2 @ snd (generationTransaction t)"

text \<open>
  \<open>serializeHeader\<close>. The fresh \<open>new Buffer(80)\<close> is taken as zero-filled; with
  fields of full width every one of its bytes is overwritten.
\<close>

definition serializeHeader :: "BlockTemplate \<Rightarrow> string \<Rightarrow> string \<Rightarrow> string \<Rightarrow> buffer" where
  "serializeHeader t merkleRoot nTime nonce =
     (let header = replicate 80 0;
          header = buf_write_hex header nonce 0 4;
          header = buf_write_hex header (bits (rpcData t)) 4 4;
          header = buf_write_hex header nTime 8 4;
          header = buf_write_hex header merkleRoot 12 32;
          header = buf_write_hex header (previousblockhash (rpcData t)) 44 32;
          header = writeUInt32BE header (version (rpcData t)) 76
      in reverseBuffer header)"

definition getVoteData :: "BlockTemplate \<Rightarrow> buffer" where
  "getVoteData t =
     (if \<not> masternode_payments (rpcData t) then []
      else concat (varIntBuffer (length (votes (rpcData t)))
                   # map hexDecode (votes (rpcData t))))"

definition serializeBlock :: "BlockTemplate \<Rightarrow> buffer \<Rightarrow> buffer \<Rightarrow> buffer" where
  "serializeBlock t header coinbase =
     concat [header,
             varIntBuffer (length (transactions (rpcData t)) + 1),
             coinbase,
             transactionData t,
             getVoteData t,
             if reward t = ''POS'' then [0] else []]"

text \<open>
  \<open>registerSubmit\<close> returns its boolean and the template with the new \<open>submits\<close>.
  The fingerprint is the JavaScript string concatenation of the four arguments.
\<close>

definition registerSubmit ::
  "string \<Rightarrow> string \<Rightarrow> string \<Rightarrow> string \<Rightarrow> BlockTemplate \<Rightarrow> bool \<times> BlockTemplate" where
  "registerSubmit extraNonce1 extraNonce2 nTime nonce t =
     (let submission = extraNonce1 @ extraNonce2 @ nTime @ nonce in
      if submission \<notin> set (submits t)
      then (True, t\<lparr>submits := submits t @ [submission]\<rparr>)
      else (False, t))"

type_synonym submit_args = "string \<times> string \<times> string \<times> string"

definition fingerprint :: "submit_args \<Rightarrow> string" where
  "fingerprint c = (case c of (e1, e2, nTime, nonce) \<Rightarrow> e1 @ e2 @ nTime @ nonce)"

text \<open>A sequence of \<open>registerSubmit\<close> calls on one template, with the value of each call.\<close>

fun registerSubmits :: "submit_args list \<Rightarrow> BlockTemplate \<Rightarrow> bool list \<times> BlockTemplate" where
  "registerSubmits [] t = ([], t)"
| "registerSubmits ((e1, e2, nTime, nonce) # cs) t =
     (case registerSubmit e1 e2 nTime nonce t of
        (r, t') \<Rightarrow> (case registerSubmits cs t' of (rs, t'') \<Rightarrow> (r # rs, t'')))"

text \<open>Two argument tuples whose first three components have the same widths.\<close>

definition sameWidths :: "submit_args \<Rightarrow> submit_args \<Rightarrow> bool" where
  "sameWidths c d =
     (case c of (e1, e2, nTime, nonce) \<Rightarrow>
      case d of (e1', e2', nTime', nonce') \<Rightarrow>
        length e1 = length e1' \<and> length e2 = length e2' \<and> length nTime = length nTime')"

text \<open>The template of the specification's header scenario, used for concrete runs.\<close>

definition exampleRpcData :: RpcData where
  "exampleRpcData =
     \<lparr> previousblockhash =
         ''0000000000000000000000000000000000000000000000000000000000000001'',
       bits = ''1d00ffff'',
       version = 0x20000000,
       transactions = [\<lparr> data = ''01000000'' \<rparr>],
       masternode_payments = True,
       votes = [''aa'', ''bbcc''] \<rparr>"

definition exampleTemplate :: BlockTemplate where
  "exampleTemplate = BlockTemplate_new ''1'' exampleRpcData ''POS'' ([1, 2], [3])"


section \<open>Stratum client session (\<open>lib/stratum.js\<close>, class \<open>StratumClient\<close>)\<close>

text \<open>
  The socket is read with \<open>setEncoding('utf8')\<close>. Text received from it is modelled as
  \<open>string\<close>, a list of the UTF-8 bytes of the JavaScript string, so
  \<open>Buffer.byteLength(s, 'utf8')\<close> is \<open>length s\<close> and the line feed is the byte \<open>0x0A\<close>.
\<close>

datatype js_value = Undefined | JStr string

text \<open>A value used as a property key is converted to a string first.\<close>

fun propertyKey :: "js_value \<Rightarrow> string" where
  "propertyKey Undefined = ''undefined''"
| "propertyKey (JStr s) = s"

text \<open>
  The parameter array of a job, as \<open>getJobParams\<close> builds it: job id, reversed previous
  hash, the two coinbase halves, the Merkle branch, version, bits, time, and the
  clean-jobs flag.
\<close>

type_synonym jobParams =
  "string \<times> string \<times> string \<times> string \<times> string list \<times> string \<times> string \<times> string \<times> bool"

text \<open>
  The objects that the operations below pass to \<open>sendJson\<close>, which writes one JSON line
  for each to the socket.
\<close>

datatype outgoing =
    MiningSetDifficulty real

text \<open>
  What a session does to the outside, in order: events it emits for the host (name and
  argument), lines it writes to its socket, and \<open>socket.destroy()\<close>.
\<close>

datatype effect =
    Emit string string
  | SocketWrite outgoing
  | SocketDestroy

text \<open>
  The fields of a \<open>StratumClient\<close> that the operations below use. \<open>tcpProxyProtocol\<close>
  is true when \<open>options.tcpProxyProtocol === true\<close>; \<open>sock\<close> identifies
  \<open>options.socket\<close>; \<open>dataBuffer\<close> is the variable of that name in \<open>setupSocket\<close>;
  an absent \<open>difficulty\<close> or \<open>previousDifficulty\<close> is \<open>undefined\<close>, an absent
  \<open>pendingDifficulty\<close> is \<open>null\<close>.
\<close>

record StratumClient =
  subscriptionId :: string
  tcpProxyProtocol :: bool
  sock :: nat
  remoteAddress :: js_value
  pendingDifficulty :: "real option"
  difficulty :: "real option"
  previousDifficulty :: "real option"
  dataBuffer :: string
  effects :: "effect list"

definition client_emit :: "string \<Rightarrow> string \<Rightarrow> StratumClient \<Rightarrow> StratumClient" where
  "client_emit ev arg c = c\<lparr>effects := effects c @ [Emit ev arg]\<rparr>"

definition socket_destroy :: "StratumClient \<Rightarrow> StratumClient" where
  "socket_destroy c = c\<lparr>effects := effects c @ [SocketDestroy]\<rparr>"

definition sendJson :: "outgoing \<Rightarrow> StratumClient \<Rightarrow> StratumClient" where
  "sendJson msg c = c\<lparr>effects := effects c @ [SocketWrite msg]\<rparr>"

text \<open>
  What the session takes from outside its own code: \<open>JSON.parse\<close> (\<open>None\<close> when it
  throws), the truthiness of a parsed value, and \<open>handleMessage\<close>, the dispatch of a
  parsed message, whose body no property below depends on.
\<close>

record 'j runtime =
  JSON_parse :: "string \<Rightarrow> 'j option"
  truthy :: "'j \<Rightarrow> bool"
  handleMessage :: "'j \<Rightarrow> StratumClient \<Rightarrow> StratumClient"

text \<open>\<open>s.split(sep)\<close> for a one-character separator.\<close>

fun split_on :: "char \<Rightarrow> string \<Rightarrow> string list" where
  "split_on sep [] = [[]]"
| "split_on sep (c # cs) =
     (if c = sep then [] # split_on sep cs
      else (case split_on sep cs of
              [] \<Rightarrow> [[c]]
            | w # ws \<Rightarrow> (c # w) # ws))"

text \<open>\<open>d.indexOf(p) === 0\<close>.\<close>

definition startsWith :: "string \<Rightarrow> string \<Rightarrow> bool" where
  "startsWith p d = (take (length p) d = p)"

definition newline :: char where
  "newline = CHR 0x0A"

text \<open>
  The body of the \<open>forEach\<close> in the \<open>'data'\<close> listener: one line \<open>message\<close> of the
  chunk \<open>d\<close>.
\<close>

definition handleLine :: "'j runtime \<Rightarrow> string \<Rightarrow> string \<Rightarrow> StratumClient \<Rightarrow> StratumClient" where
  "handleLine rt d message c =
     (if message = [] then c
      else (case JSON_parse rt message of
              None \<Rightarrow>
                (if \<not> tcpProxyProtocol c \<or> \<not> startsWith ''PROXY'' d
                 then socket_destroy (client_emit ''malformedMessage'' message c)
                 else c)
            | Some messageJson \<Rightarrow>
                (if truthy rt messageJson then handleMessage rt messageJson c else c)))"

text \<open>The \<open>'data'\<close> listener that \<open>setupSocket\<close> attaches with \<open>socket.on\<close>.\<close>

definition onData :: "'j runtime \<Rightarrow> string \<Rightarrow> StratumClient \<Rightarrow> StratumClient" where
  "onData rt d c0 =
     (let c = c0\<lparr>dataBuffer := dataBuffer c0 @ d\<rparr> in
      if length (dataBuffer c) > 10240
      then socket_destroy (client_emit ''socketFlooded'' [] (c\<lparr>dataBuffer := []\<rparr>))
      else if newline \<in> set (dataBuffer c)
      then (let messages = split_on newline (dataBuffer c);
                incomplete = (if last (dataBuffer c) = newline then [] else last messages);
                messages = (if last (dataBuffer c) = newline then messages
                            else butlast messages);
                c = foldl (\<lambda>c message. handleLine rt d message c) c messages
            in c\<lparr>dataBuffer := incomplete\<rparr>)
      else c)"

definition enqueueNextDifficulty :: "real \<Rightarrow> StratumClient \<Rightarrow> bool \<times> StratumClient" where
  "enqueueNextDifficulty requestedNewDifficulty c =
     (True, c\<lparr>pendingDifficulty := Some requestedNewDifficulty\<rparr>)"

definition sendDifficulty :: "real \<Rightarrow> StratumClient \<Rightarrow> bool \<times> StratumClient" where
  "sendDifficulty d c =
     (if Some d = difficulty c then (False, c)
      else (True, sendJson (MiningSetDifficulty d)
                    (c\<lparr>previousDifficulty := difficulty c, difficulty := Some d\<rparr>)))"

text \<open>
  \<open>client.sendMiningJob(jobParams)\<close>. Class \<open>StratumClient\<close> defines the methods \<open>init\<close>,
  \<open>handleMessage\<close>, \<open>handleSubscribe\<close>, \<open>handleAuthorize\<close>, \<open>handleSubmit\<close>, \<open>sendJson\<close>,
  \<open>setupSocket\<close>, \<open>enqueueNextDifficulty\<close>, \<open>sendDifficulty\<close>, \<open>manuallyAuthClient\<close> and
  \<open>manuallySetValues\<close>; its constructor assigns \<open>considerBan\<close>; \<open>EventEmitter\<close> has no
  \<open>sendMiningJob\<close> either. The property is \<open>undefined\<close>, and the call throws a
  \<open>TypeError\<close> with the client as it was.
\<close>

definition sendMiningJob :: "jobParams \<Rightarrow> StratumClient \<Rightarrow> js_error + StratumClient" where
  "sendMiningJob params c = Inl TypeError"

text \<open>A stand-in for \<open>JSON.parse\<close> on the lines of the concrete runs: \<open>{}\<close> parses.\<close>

definition exampleRuntime :: "unit runtime" where
  "exampleRuntime =
     \<lparr> JSON_parse = (\<lambda>s. if s = ''{}'' then Some () else None),
       truthy = (\<lambda>_. True),
       handleMessage = (\<lambda>_ c. client_emit ''handled'' [] c) \<rparr>"

definition exampleClient :: StratumClient where
  "exampleClient =
     \<lparr> subscriptionId = ''deadbeefcafebabe0100000000000000'',
       tcpProxyProtocol = False,
       sock = 0,
       remoteAddress = JStr ''10.0.0.1'',
       pendingDifficulty = None,
       difficulty = Some 16,
       previousDifficulty = None,
       dataBuffer = [],
       effects = [] \<rparr>"

section \<open>Stratum server (\<open>lib/stratum.js\<close>, class \<open>StratumServer\<close>)\<close>

text \<open>\<open>buf.toString('hex')\<close>: two lower-case digits for each byte.\<close>

definition hexDigit :: "nat \<Rightarrow> char" where
  "hexDigit n = ''0123456789abcdef'' ! (n mod 16)"

definition hexEncode :: "buffer \<Rightarrow> string" where
  "hexEncode bs = concat (map (\<lambda>b. [hexDigit (unat b div 16), hexDigit (unat b)]) bs)"

text \<open>
  Modelled from the spec: \<open>util.packInt64LE\<close> (module \<open>util\<close> is not among the sources)
  is the fixed-width little-endian byte string of a number, eight bytes.
\<close>

definition packInt64LE :: "nat \<Rightarrow> buffer" where
  "packInt64LE n = le_bytes 8 n"

text \<open>
  \<open>SubscriptionCounter.next\<close>: the new count and the identifier. The count is a double
  that starts at 0 and changes only here, so it is an integer of at most \<open>2^53\<close>; there
  \<open>count++\<close> leaves it as it is, since \<open>2^53 + 1\<close> is no double and rounds back to
  \<open>2^53\<close>. The comparison is with \<open>Number.MAX_VALUE\<close>, which is \<open>(2^53 - 1) * 2^971\<close>.
\<close>

definition SubscriptionCounter_next :: "nat \<Rightarrow> string \<times> nat" where
  "SubscriptionCounter_next count0 =
     (let count1 = (if count0 < 2 ^ 53 then count0 + 1 else count0);
          count2 = (if (2 ^ 53 - 1) * 2 ^ 971 = count1 then 0 else count1)
      in (''deadbeefcafebabe'' @ hexEncode (packInt64LE count2), count2))"

text \<open>
  The configuration. \<open>ports\<close> holds the keys of \<open>options.ports\<close> as \<open>parseInt\<close> reads
  them; the times are numbers of seconds.
\<close>

record Banning =
  enabled :: bool
  time :: int
  purgeInterval :: int
  checkThreshold :: int
  invalidPercent :: int

record ServerOptions =
  banning :: "Banning option"
  ports :: "nat list"
  opt_tcpProxyProtocol :: bool
  connectionTimeout :: int
  jobRebroadcastTimeout :: int

text \<open>
  Event emitters are the server, a client (named by its subscription id) and an accepted
  socket (named by a number). A listener is one of the functions that the code attaches
  with \<open>on\<close> or \<open>once\<close>; those written as arrow functions carry the client they close
  over, those written with \<open>function\<close> get the emitter they are attached to as \<open>this\<close>
  when they run.
\<close>

datatype emitter = ServerE | ClientE string | SocketE nat

datatype listener =
    OnSocketDisconnect string
  | OnCheckBan string
  | OnTriggerBan string
  | OnceProxyData string
  | OnData string
  | OnClose
  | OnError

text \<open>
  The outcome of a call: it returns, or it throws and leaves the state as it was at the
  throw, or the model ran out of fuel for nested \<open>emit\<close> calls.
\<close>

datatype 'a result = Done 'a | Thrown js_error 'a | OutOfFuel

text \<open>
  The server object and what it reaches. \<open>options\<close> is \<open>this.options\<close>, absent while
  the property is \<open>undefined\<close>; \<open>bannedMS\<close> is absent when \<open>null\<close>; \<open>stratumClients\<close>
  and \<open>bannedIPs\<close> are the objects of those names, keys in insertion order, the values
  of \<open>stratumClients\<close> being references into \<open>heap\<close>, the client objects by subscription
  id. \<open>listeners\<close> are the listeners attached so far, \<open>emitted\<close> the events emitted so
  far (emitter, name, argument). \<open>rebroadcastTimeout\<close> and \<open>purgeTimer\<close> are the delay
  of the pending timeout and the period of the interval, in milliseconds, \<open>listenCalls\<close>
  the ports passed to \<open>listen\<close>, \<open>serversStarted\<close> the counter of that name in \<open>init\<close>.
\<close>

record StratumServer =
  options :: "ServerOptions option"
  bannedMS :: "int option"
  stratumClients :: "(string \<times> string) list"
  subscriptionCounter :: nat
  bannedIPs :: "(string \<times> int) list"
  rebroadcastTimeout :: "int option"
  heap :: "(string \<times> StratumClient) list"
  listeners :: "(emitter \<times> string \<times> listener) list"
  emitted :: "(emitter \<times> string \<times> string) list"
  purgeTimer :: "int option"
  listenCalls :: "nat list"
  serversStarted :: nat

type_synonym emit_fn =
  "emitter \<Rightarrow> string \<Rightarrow> string \<Rightarrow> StratumServer \<Rightarrow> StratumServer result"

definition addBannedIP :: "int \<Rightarrow> js_value \<Rightarrow> StratumServer \<Rightarrow> StratumServer" where
  "addBannedIP now ipAddress w =
     w\<lparr>bannedIPs := AList.update (propertyKey ipAddress) now (bannedIPs w)\<rparr>"

definition removeStratumClientBySubId :: "js_value \<Rightarrow> StratumServer \<Rightarrow> StratumServer" where
  "removeStratumClientBySubId subId w =
     w\<lparr>stratumClients := AList.delete (propertyKey subId) (stratumClients w)\<rparr>"

text \<open>
  \<open>checkBan(client)\<close> at time \<open>now\<close> (milliseconds); \<open>em\<close> is \<open>emit\<close>. In the branch
  of a ban still running the code evaluates \<open>client.socket.destroy()\<close>; a
  \<open>StratumClient\<close> has no property \<open>socket\<close> (its constructor keeps the socket in
  \<open>options.socket\<close> only), so that throws a \<open>TypeError\<close>.
\<close>

definition checkBan :: "emit_fn \<Rightarrow> int \<Rightarrow> string \<Rightarrow> StratumServer \<Rightarrow> StratumServer result" where
  "checkBan em now cid w =
     (case options w of
        None \<Rightarrow> Thrown TypeError w
      | Some opts \<Rightarrow>
          (case banning opts of
             None \<Rightarrow> Done w
           | Some b \<Rightarrow>
               (case map_of (heap w) cid of
                  None \<Rightarrow> Done w
                | Some client \<Rightarrow>
                    (if \<not> enabled b then Done w
                     else (case map_of (bannedIPs w) (propertyKey (remoteAddress client)) of
                             None \<Rightarrow> Done w
                           | Some bannedTime \<Rightarrow>
                               (let bannedTimeAgo = now - bannedTime;
                                    timeLeft = (case bannedMS w of None \<Rightarrow> 0 | Some ms \<Rightarrow> ms)
                                               - bannedTimeAgo
                                in if timeLeft > 0 then Thrown TypeError w
                                   else em (ClientE cid) ''forgaveBannedIP'' []
                                          (w\<lparr>bannedIPs :=
                                               AList.delete (propertyKey (remoteAddress client))
                                                 (bannedIPs w)\<rparr>)))))))"

text \<open>
  One listener, run with \<open>this\<close> and the event's argument. \<open>OnSocketDisconnect\<close> is the
  arrow function of \<open>handleNewClient\<close>: its \<open>this\<close> is the server, and the server has no
  property \<open>subscriptionId\<close>, so \<open>this.subscriptionId\<close> is \<open>undefined\<close>. \<open>OnClose\<close> and
  \<open>OnError\<close> are the \<open>function\<close> listeners of \<open>setupSocket\<close>: they emit on \<open>this\<close>.
\<close>

definition update_client ::
  "string \<Rightarrow> (StratumClient \<Rightarrow> StratumClient) \<Rightarrow> StratumServer \<Rightarrow> StratumServer" where
  "update_client cid f w =
     (case map_of (heap w) cid of
        None \<Rightarrow> w
      | Some c \<Rightarrow> w\<lparr>heap := AList.update cid (f c) (heap w)\<rparr>)"

definition nth_token :: "string \<Rightarrow> nat \<Rightarrow> js_value" where
  "nth_token d n =
     (let tokens = split_on CHR '' '' d
      in if n < length tokens then JStr (tokens ! n) else Undefined)"

fun run_listener ::
  "'j runtime \<Rightarrow> emit_fn \<Rightarrow> int \<Rightarrow> listener \<Rightarrow> emitter \<Rightarrow> string \<Rightarrow> StratumServer
   \<Rightarrow> StratumServer result" where
  "run_listener rt em now (OnSocketDisconnect cid) this arg w =
     em ServerE ''client.disconnected'' cid (removeStratumClientBySubId Undefined w)"
| "run_listener rt em now (OnCheckBan cid) this arg w = checkBan em now cid w"
| "run_listener rt em now (OnTriggerBan cid) this arg w =
     (case map_of (heap w) cid of
        None \<Rightarrow> Done w
      | Some client \<Rightarrow> Done (addBannedIP now (remoteAddress client) w))"
| "run_listener rt em now (OnceProxyData cid) this arg w =
     (let w1 = w\<lparr>listeners := remove1 (this, ''data'', OnceProxyData cid) (listeners w)\<rparr>
      in if startsWith ''PROXY'' arg
         then em (ClientE cid) ''checkBan'' []
                (update_client cid (\<lambda>c. c\<lparr>remoteAddress := nth_token arg 2\<rparr>) w1)
         else (case em (ClientE cid) ''tcpProxyError'' arg w1 of
                 Done w2 \<Rightarrow> em (ClientE cid) ''checkBan'' [] w2
               | r \<Rightarrow> r))"
| "run_listener rt em now (OnData cid) this arg w = Done (update_client cid (onData rt arg) w)"
| "run_listener rt em now OnClose this arg w = em this ''socketDisconnect'' [] w"
| "run_listener rt em now OnError this arg w =
     (if arg \<noteq> ''ECONNRESET'' then em this ''socketError'' arg w else Done w)"

fun run_listeners ::
  "'j runtime \<Rightarrow> emit_fn \<Rightarrow> int \<Rightarrow> listener list \<Rightarrow> emitter \<Rightarrow> string \<Rightarrow> StratumServer
   \<Rightarrow> StratumServer result" where
  "run_listeners rt em now [] this arg w = Done w"
| "run_listeners rt em now (l # ls) this arg w =
     (case run_listener rt em now l this arg w of
        Done w1 \<Rightarrow> run_listeners rt em now ls this arg w1
      | r \<Rightarrow> r)"

definition listeners_of :: "emitter \<Rightarrow> string \<Rightarrow> StratumServer \<Rightarrow> listener list" where
  "listeners_of e ev w =
     map (\<lambda>(e1, ev1, l). l) (filter (\<lambda>(e1, ev1, l). e1 = e \<and> ev1 = ev) (listeners w))"

text \<open>
  \<open>EventEmitter.emit\<close> on emitter \<open>e\<close>: the listeners attached for the event run in
  order with \<open>this = e\<close>; an exception leaves through \<open>emit\<close>. The first argument
  bounds the nesting of \<open>emit\<close> calls.
\<close>

primrec emit :: "nat \<Rightarrow> 'j runtime \<Rightarrow> int \<Rightarrow> emit_fn" where
  "emit 0 rt now e ev arg w = OutOfFuel"
| "emit (Suc fuel) rt now e ev arg w =
     run_listeners rt (emit fuel rt now) now (listeners_of e ev w) e arg
       (w\<lparr>emitted := emitted w @ [(e, ev, arg)]\<rparr>)"

definition on :: "emitter \<Rightarrow> string \<Rightarrow> listener \<Rightarrow> StratumServer \<Rightarrow> StratumServer" where
  "on e ev l w = w\<lparr>listeners := listeners w @ [(e, ev, l)]\<rparr>"

text \<open>
  \<open>setupSocket\<close> of the client \<open>cid\<close> on its socket \<open>s\<close>, called by \<open>client.init()\<close>.
\<close>

definition setupSocket ::
  "nat \<Rightarrow> 'j runtime \<Rightarrow> int \<Rightarrow> string \<Rightarrow> nat \<Rightarrow> bool \<Rightarrow> StratumServer \<Rightarrow> StratumServer result" where
  "setupSocket fuel rt now cid s proxy w =
     (case (if proxy then Done (on (SocketE s) ''data'' (OnceProxyData cid) w)
            else emit fuel rt now (ClientE cid) ''checkBan'' [] w) of
        Done w1 \<Rightarrow>
          Done (on (SocketE s) ''error'' OnError
                 (on (SocketE s) ''close'' OnClose
                   (on (SocketE s) ''data'' (OnData cid) w1)))
      | r \<Rightarrow> r)"

text \<open>
  \<open>handleNewClient(socket)\<close> for the socket \<open>s\<close> with remote address \<open>addr\<close>. The
  identifier it returns is the one \<open>SubscriptionCounter_next\<close> gives.
\<close>

definition handleNewClient ::
  "nat \<Rightarrow> 'j runtime \<Rightarrow> int \<Rightarrow> nat \<Rightarrow> js_value \<Rightarrow> StratumServer \<Rightarrow> StratumServer result" where
  "handleNewClient fuel rt now s addr w =
     (let (sid, count1) = SubscriptionCounter_next (subscriptionCounter w);
          w0 = w\<lparr>subscriptionCounter := count1\<rparr>
      in case options w0 of
           None \<Rightarrow> Thrown TypeError w0
         | Some opts \<Rightarrow>
             (let client = \<lparr> subscriptionId = sid,
                             tcpProxyProtocol = opt_tcpProxyProtocol opts,
                             sock = s,
                             remoteAddress = addr,
                             pendingDifficulty = None,
                             difficulty = None,
                             previousDifficulty = None,
                             dataBuffer = [],
                             effects = [] \<rparr>;
                  w1 = w0\<lparr>heap := AList.update sid client (heap w0),
                          stratumClients := AList.update sid sid (stratumClients w0)\<rparr>
              in case emit fuel rt now ServerE ''client.connected'' sid w1 of
                   Done w2 \<Rightarrow>
                     setupSocket fuel rt now sid s (opt_tcpProxyProtocol opts)
                       (on (ClientE sid) ''triggerBan'' (OnTriggerBan sid)
                         (on (ClientE sid) ''checkBan'' (OnCheckBan sid)
                           (on (ClientE sid) ''socketDisconnect'' (OnSocketDisconnect sid) w2)))
                 | r \<Rightarrow> r))"

text \<open>
  The \<open>for\<close> loop of \<open>broadcastMiningJobs\<close> over the entries of \<open>stratumClients\<close>
  that are still to be visited. An exception in the body ends the loop and the method.
\<close>

fun broadcast_loop ::
  "jobParams \<Rightarrow> (string \<times> string) list \<Rightarrow> StratumServer \<Rightarrow> StratumServer result" where
  "broadcast_loop params [] w = Done w"
| "broadcast_loop params ((clientId, ref) # rest) w =
     (case map_of (heap w) ref of
        None \<Rightarrow> Thrown TypeError w
      | Some client \<Rightarrow>
          (case sendMiningJob params client of
             Inl e \<Rightarrow> Thrown e w
           | Inr client1 \<Rightarrow>
               broadcast_loop params rest
                 (w\<lparr>heap := AList.update ref client1 (heap w)\<rparr>)))"

text \<open>
  \<open>broadcastMiningJobs(jobParams)\<close>: the loop over the clients, then the timer, whose
  delay reads \<open>this.options\<close>.
\<close>

definition broadcastMiningJobs :: "jobParams \<Rightarrow> StratumServer \<Rightarrow> StratumServer result" where
  "broadcastMiningJobs params w =
     (case broadcast_loop params (stratumClients w) w of
        Done w1 \<Rightarrow>
          (let w2 = w1\<lparr>rebroadcastTimeout := None\<rparr>
           in case options w2 of
                None \<Rightarrow> Thrown TypeError w2
              | Some opts \<Rightarrow>
                  Done (w2\<lparr>rebroadcastTimeout := Some (jobRebroadcastTimeout opts * 1000)\<rparr>))
      | r \<Rightarrow> r)"

text \<open>
  The function that \<open>init\<close> passes to \<open>setInterval\<close>, run at time \<open>now\<close>
  (milliseconds). The loop body reads \<open>this.options.banning.time\<close>.
\<close>

definition purgeSweep :: "int \<Rightarrow> StratumServer \<Rightarrow> StratumServer result" where
  "purgeSweep now w =
     (if bannedIPs w = [] then Done w
      else (case options w of
              None \<Rightarrow> Thrown TypeError w
            | Some opts \<Rightarrow>
                (case banning opts of
                   None \<Rightarrow> Thrown TypeError w
                 | Some b \<Rightarrow>
                     Done (w\<lparr>bannedIPs :=
                               filter (\<lambda>(ip, banTime). \<not> (now - banTime > time b))
                                 (bannedIPs w)\<rparr>))))"

text \<open>\<open>init()\<close>: the purge interval, then one \<open>listen\<close> for each port.\<close>

definition init :: "StratumServer \<Rightarrow> StratumServer result" where
  "init w =
     (case options w of
        None \<Rightarrow> Thrown TypeError w
      | Some opts \<Rightarrow>
          (let w1 = (case banning opts of
                       None \<Rightarrow> w
                     | Some b \<Rightarrow>
                         if enabled b then w\<lparr>purgeTimer := Some (1000 * purgeInterval b)\<rparr>
                         else w)
           in Done (w1\<lparr>serversStarted := 0, listenCalls := listenCalls w1 @ ports opts\<rparr>)))"

text \<open>The callback that \<open>init\<close> passes to \<open>listen\<close>, run when a listener is bound.\<close>

definition onListening :: "nat \<Rightarrow> 'j runtime \<Rightarrow> int \<Rightarrow> StratumServer \<Rightarrow> StratumServer result" where
  "onListening fuel rt now w =
     (let w1 = w\<lparr>serversStarted := serversStarted w + 1\<rparr>
      in case options w1 of
           None \<Rightarrow> Thrown TypeError w1
         | Some opts \<Rightarrow>
             if serversStarted w1 = length (ports opts)
             then emit fuel rt now ServerE ''started'' [] w1
             else Done w1)"

text \<open>
  The constructor \<open>new StratumServer(options, authorizeFn)\<close>. It assigns \<open>authorizeFn\<close>,
  \<open>bannedMS\<close>, \<open>stratumClients\<close>, \<open>subscriptionCounter\<close> and \<open>bannedIPs\<close>, and calls
  \<open>init\<close>; it does not assign \<open>this.options\<close>.
\<close>

definition StratumServer_new :: "ServerOptions \<Rightarrow> StratumServer result" where
  "StratumServer_new opts =
     init \<lparr> options = None,
            bannedMS = (case banning opts of None \<Rightarrow> None | Some b \<Rightarrow> Some (time b * 1000)),
            stratumClients = [],
            subscriptionCounter = 0,
            bannedIPs = [],
            rebroadcastTimeout = None,
            heap = [],
            listeners = [],
            emitted = [],
            purgeTimer = None,
            listenCalls = [],
            serversStarted = 0 \<rparr>"

text \<open>
  A configuration and a server object for concrete runs. The server is the one the
  constructor builds, with \<open>options\<close> holding the configuration.
\<close>

definition exampleOptions :: ServerOptions where
  "exampleOptions =
     \<lparr> banning = Some \<lparr> enabled = True, time = 600, purgeInterval = 300,
                        checkThreshold = 500, invalidPercent = 50 \<rparr>,
       ports = [3032, 3256],
       opt_tcpProxyProtocol = False,
       connectionTimeout = 600,
       jobRebroadcastTimeout = 55 \<rparr>"

definition exampleServer :: StratumServer where
  "exampleServer =
     \<lparr> options = Some exampleOptions,
       bannedMS = Some 600000,
       stratumClients = [],
       subscriptionCounter = 0,
       bannedIPs = [],
       rebroadcastTimeout = None,
       heap = [],
       listeners = [],
       emitted = [],
       purgeTimer = None,
       listenCalls = [],
       serversStarted = 0 \<rparr>"

section \<open>P2P peer (\<open>src/peer.ts\<close>)\<close>

definition readUInt8 :: "buffer \<Rightarrow> nat \<Rightarrow> js_error + nat" where
  "readUInt8 buf offset =
     (if offset + 1 \<le> length buf then Inr (unat (buf ! offset)) else Inl RangeError)"

definition readUInt16LE :: "buffer \<Rightarrow> nat \<Rightarrow> js_error + nat" where
  "readUInt16LE buf offset =
     (if offset + 2 \<le> length buf
      then Inr (le_val (take 2 (drop offset buf)))
      else Inl RangeError)"

text \<open>\<open>buf.slice(start, end)\<close> for \<open>start \<le> end\<close>, clipped to the buffer.\<close>

definition slice :: "buffer \<Rightarrow> nat \<Rightarrow> nat \<Rightarrow> buffer" where
  "slice buf start end = take (end - start) (drop start buf)"

text \<open>
  \<open>fixedLenStringBuffer\<close> for an ASCII string: a zero-filled buffer of \<open>len\<close> bytes with
  the string written at its start.
\<close>

definition fixedLenStringBuffer :: "string \<Rightarrow> nat \<Rightarrow> buffer" where
  "fixedLenStringBuffer s len =
     (let bytes = take len (map (\<lambda>c. of_nat (of_char c)) s)
      in bytes @ replicate (len - length bytes) 0)"

definition commandStringBuffer :: "string \<Rightarrow> buffer" where
  "commandStringBuffer s = fixedLenStringBuffer s 12"

text \<open>
  What the peer emits: \<open>error\<close> with its text, \<open>peerMessage\<close> with command and payload,
  \<open>blockFound\<close> with the hash in hex, \<open>connected\<close>.
\<close>

datatype peer_event =
    PeerError string
  | PeerMessage buffer buffer
  | BlockFound string
  | Connected

text \<open>
  The pending \<open>readFlowingBytes\<close> call: the callback it will run (that of the header, or
  that of the payload with the command, length and checksum it closes over) and the
  bytes it has buffered.
\<close>

datatype reading =
    ReadHeader
  | ReadPayload buffer nat "32 word"

record Peer =
  magicInt :: "32 word"
  verack :: bool
  reading :: reading
  buff :: buffer
  events :: "peer_event list"

definition peer_emit :: "peer_event \<Rightarrow> Peer \<Rightarrow> Peer" where
  "peer_emit ev p = p\<lparr>events := events p @ [ev]\<rparr>"

text \<open>
  The loop of \<open>HandleInv\<close>, \<open>count\<close> vectors to go. The type codes are 0 (error),
  1 (transaction) and 2 (block).
\<close>

fun inv_loop :: "nat \<Rightarrow> buffer \<Rightarrow> Peer \<Rightarrow> Peer result" where
  "inv_loop 0 payload p = Done p"
| "inv_loop (Suc count) payload p =
     (case readUInt32LE payload 0 of
        Inl e \<Rightarrow> Thrown e p
      | Inr code \<Rightarrow>
          inv_loop count (drop 36 payload)
            (if code = 2 then peer_emit (BlockFound (hexEncode (slice payload 4 36))) p
             else p))"

definition HandleInv :: "buffer \<Rightarrow> Peer \<Rightarrow> Peer result" where
  "HandleInv payload p =
     (case readUInt8 payload 0 of
        Inl e \<Rightarrow> Thrown e p
      | Inr count \<Rightarrow>
          (let payload1 = drop 1 payload
           in if count \<ge> 0xfd
              then (case readUInt16LE payload1 0 of
                      Inl e \<Rightarrow> Thrown e p
                    | Inr count2 \<Rightarrow> inv_loop count2 (drop 2 payload1) p)
              else inv_loop count payload1 p))"

definition HandleMessage :: "buffer \<Rightarrow> buffer \<Rightarrow> Peer \<Rightarrow> Peer result" where
  "HandleMessage command payload p0 =
     (let p = peer_emit (PeerMessage command payload) p0
      in if command = commandStringBuffer ''inv'' then HandleInv payload p
         else if command = commandStringBuffer ''verack''
         then (if \<not> verack p then Done (peer_emit Connected (p\<lparr>verack := True\<rparr>))
               else Done p)
         else Done p)"

text \<open>
  The \<open>while\<close> loop of the bad-magic branch. Its condition reads the leading word before
  it looks at the length.
\<close>

function scan :: "32 word \<Rightarrow> buffer \<Rightarrow> js_error + buffer" where
  "scan magic header =
     (case readUInt32LE header 0 of
        Inl e \<Rightarrow> Inl e
      | Inr m \<Rightarrow>
          if m \<noteq> magic \<and> length header \<ge> 4 then scan magic (drop 1 header)
          else Inr header)"
  by pat_completeness auto
termination
  by (relation "measure (\<lambda>(magic, header). length header)") auto

declare scan.simps [simp del]

text \<open>
  The parser: while the pending \<open>readFlowingBytes\<close> has the bytes it waits for, its
  callback runs and starts the next read. \<open>sha256d\<close> is \<open>util.sha256d\<close>.
\<close>

function pump :: "(buffer \<Rightarrow> buffer) \<Rightarrow> Peer \<Rightarrow> Peer result" where
  "pump sha256d p =
     (case reading p of
        ReadHeader \<Rightarrow>
          if length (buff p) \<ge> 24
          then (let header = take 24 (buff p); lopped = drop 24 (buff p)
                in case readUInt32LE header 0 of
                     Inl e \<Rightarrow> Thrown e p
                   | Inr msgMagic \<Rightarrow>
                       if msgMagic \<noteq> magicInt p
                       then (let p1 = peer_emit (PeerError ''bad magic number from peer'') p
                             in case scan (magicInt p) header of
                                  Inl e \<Rightarrow> Thrown e p1
                                | Inr header1 \<Rightarrow>
                                    (case readUInt32LE header1 0 of
                                       Inl e \<Rightarrow> Thrown e p1
                                     | Inr m \<Rightarrow>
                                         pump sha256d
                                           (p1\<lparr>buff := (if m = magicInt p then header1
                                                           else [])\<rparr>)))
                       else (case readUInt32LE header 16 of
                               Inl e \<Rightarrow> Thrown e p
                             | Inr msgLength \<Rightarrow>
                                 (case readUInt32LE header 20 of
                                    Inl e \<Rightarrow> Thrown e p
                                  | Inr msgChecksum \<Rightarrow>
                                      pump sha256d
                                        (p\<lparr>reading := ReadPayload (slice header 4 16)
                                                         (unat msgLength) msgChecksum,
                                           buff := lopped\<rparr>))))
          else Done p
      | ReadPayload msgCommand msgLength msgChecksum \<Rightarrow>
          if length (buff p) \<ge> msgLength
          then (let payload = take msgLength (buff p); lopped = drop msgLength (buff p)
                in case readUInt32LE (sha256d payload) 0 of
                     Inl e \<Rightarrow> Thrown e p
                   | Inr checksum \<Rightarrow>
                       if checksum \<noteq> msgChecksum
                       then pump sha256d
                              ((peer_emit (PeerError ''bad payload - failed checksum'') p)
                                 \<lparr>reading := ReadHeader, buff := []\<rparr>)
                       else (case HandleMessage msgCommand payload p of
                               Done p1 \<Rightarrow> pump sha256d (p1\<lparr>reading := ReadHeader, buff := lopped\<rparr>)
                             | r \<Rightarrow> r))
          else Done p)"
  by pat_completeness auto

termination
proof (relation "measure (\<lambda>(sha256d, p). 2 * length (buff p)
                   + (case reading p of ReadHeader \<Rightarrow> 0 | ReadPayload c n k \<Rightarrow> 1))")
  have scan_le: "scan magic h = Inr h1 \<Longrightarrow> length h1 \<le> length h" for magic h h1
  proof (induction magic h rule: scan.induct)
    case (1 magic header)
    show ?case
    proof (cases "readUInt32LE header 0")
      case (Inl e)
      with "1.prems" show ?thesis by (subst (asm) scan.simps) simp
    next
      case (Inr m)
      show ?thesis
      proof (cases "m \<noteq> magic \<and> length header \<ge> 4")
        case True
        with "1.prems" Inr have "scan magic (drop 1 header) = Inr h1"
          by (subst (asm) scan.simps) simp
        with "1.IH" [OF Inr True] have "length h1 \<le> length (drop 1 header)" by simp
        then show ?thesis by simp
      next
        case False
        with "1.prems" Inr have "h1 = header" by (subst (asm) scan.simps) auto
        then show ?thesis by simp
      qed
    qed
  qed
  have scan_lt: "length h1 < length h"
    if "readUInt32LE h 0 = Inr m" "m \<noteq> magic" "scan magic h = Inr h1" for magic h h1 m
  proof -
    from that(1) have len: "length h \<ge> 4"
      by (simp add: readUInt32LE_def split: if_splits)
    with that have "scan magic (drop 1 h) = Inr h1"
      by (subst (asm) scan.simps) simp
    from scan_le [OF this] len show ?thesis by simp
  qed
  show "wf (measure (\<lambda>(sha256d, p). 2 * length (buff p)
                   + (case reading p of ReadHeader \<Rightarrow> 0 | ReadPayload c n k \<Rightarrow> 1)))"
    by simp
  show "((sha256d, p1\<lparr>buff := if m = magicInt p then header1 else []\<rparr>), sha256d, p)
        \<in> measure (\<lambda>(sha256d, p). 2 * length (buff p)
                   + (case reading p of ReadHeader \<Rightarrow> 0 | ReadPayload c n k \<Rightarrow> 1))"
    if "reading p = ReadHeader" "24 \<le> length (buff p)" "header = take 24 (buff p)"
       "readUInt32LE header 0 = Inr msgMagic" "msgMagic \<noteq> magicInt p"
       "p1 = peer_emit (PeerError ''bad magic number from peer'') p"
       "scan (magicInt p) header = Inr header1"
    for sha256d p header lopped msgMagic p1 header1 m
  proof -
    from scan_lt [OF that(4) that(5) that(7)] that(2,3) have "length header1 < length (buff p)"
      by simp
    then show ?thesis using that(1,6) by (auto simp: peer_emit_def)
  qed
  show "((sha256d, p\<lparr>reading := ReadPayload (slice header 4 16) (unat msgLength) msgChecksum,
                      buff := lopped\<rparr>), sha256d, p)
        \<in> measure (\<lambda>(sha256d, p). 2 * length (buff p)
                   + (case reading p of ReadHeader \<Rightarrow> 0 | ReadPayload c n k \<Rightarrow> 1))"
    if "reading p = ReadHeader" "24 \<le> length (buff p)" "lopped = drop 24 (buff p)"
    for sha256d p header lopped msgLength msgChecksum
    using that by simp
  show "((sha256d, (peer_emit (PeerError ''bad payload - failed checksum'') p)
                     \<lparr>reading := ReadHeader, buff := []\<rparr>), sha256d, p)
        \<in> measure (\<lambda>(sha256d, p). 2 * length (buff p)
                   + (case reading p of ReadHeader \<Rightarrow> 0 | ReadPayload c n k \<Rightarrow> 1))"
    if "reading p = ReadPayload msgCommand msgLength msgChecksum"
    for sha256d p msgCommand msgLength msgChecksum
    using that by simp
  show "((sha256d, p1\<lparr>reading := ReadHeader, buff := lopped\<rparr>), sha256d, p)
        \<in> measure (\<lambda>(sha256d, p). 2 * length (buff p)
                   + (case reading p of ReadHeader \<Rightarrow> 0 | ReadPayload c n k \<Rightarrow> 1))"
    if "reading p = ReadPayload msgCommand msgLength msgChecksum"
       "lopped = drop msgLength (buff p)"
    for sha256d p msgCommand msgLength msgChecksum lopped p1
    using that by simp
qed

declare pump.simps [simp del]

text \<open>
  The parser as \<open>SetupMessageParser\<close> starts it, and the arrival of a chunk of data
  while it waits.
\<close>

definition Peer_new :: "32 word \<Rightarrow> Peer" where
  "Peer_new magic =
     \<lparr> magicInt = magic, verack = False, reading = ReadHeader, buff = [], events = [] \<rparr>"

definition onPeerData :: "(buffer \<Rightarrow> buffer) \<Rightarrow> buffer \<Rightarrow> Peer \<Rightarrow> Peer result" where
  "onPeerData sha256d chunk p = pump sha256d (p\<lparr>buff := buff p @ chunk\<rparr>)"

text \<open>
  Concrete data: the Bitcoin main-net magic \<open>f9 be b4 d9\<close>, a \<open>verack\<close> frame with its
  empty payload, and seven bytes of junk.
\<close>

definition exampleMagic :: "32 word" where
  "exampleMagic = 0xD9B4BEF9"

definition verackFrame :: buffer where
  "verackFrame =
     [0xf9, 0xbe, 0xb4, 0xd9] @ commandStringBuffer ''verack''
     @ [0, 0, 0, 0] @ [0x5d, 0xf6, 0xe0, 0xe2]"

definition junk7 :: buffer where
  "junk7 = [1, 2, 3, 4, 5, 6, 7]"

text \<open>
  A stand-in for \<open>util.sha256d\<close> in concrete runs, right on the empty payload, whose
  double SHA-256 begins \<open>5d f6 e0 e2\<close>.
\<close>

definition exampleSha256d :: "buffer \<Rightarrow> buffer" where
  "exampleSha256d payload =
     (if payload = [] then [0x5d, 0xf6, 0xe0, 0xe2] @ replicate 28 0 else replicate 32 0)"

text \<open>
  Concrete data for the server: a job, and the example server with the example client
  (current difficulty 16) registered and a difficulty of 32 staged on it.
\<close>

definition exampleJobParams :: jobParams where
  "exampleJobParams =
     (''1'', ''0000000000000000000000000000000000000000000000000000000001000000'',
      ''0102'', ''03'', [], ''20000000'', ''1d00ffff'', ''5f000000'', True)"

definition exampleServerStaged :: StratumServer where
  "exampleServerStaged =
     exampleServer
       \<lparr> stratumClients := [(subscriptionId exampleClient, subscriptionId exampleClient)],
         heap := [(subscriptionId exampleClient, snd (enqueueNextDifficulty 32 exampleClient))] \<rparr>"

text \<open>
  The example server after \<open>handleNewClient\<close> has accepted socket 7 from address
  \<open>10.0.0.1\<close>.
\<close>

definition exampleServerAccepted :: StratumServer where
  "exampleServerAccepted =
     exampleServer
       \<lparr> stratumClients := [(''deadbeefcafebabe0100000000000000'',
                             ''deadbeefcafebabe0100000000000000'')],
         subscriptionCounter := 1,
         heap := [(''deadbeefcafebabe0100000000000000'',
                   \<lparr> subscriptionId = ''deadbeefcafebabe0100000000000000'',
                     tcpProxyProtocol = False,
                     sock = 7,
                     remoteAddress = JStr ''10.0.0.1'',
                     pendingDifficulty = None,
                     difficulty = None,
                     previousDifficulty = None,
                     dataBuffer = [],
                     effects = [] \<rparr>)],
         listeners :=
           [(ClientE ''deadbeefcafebabe0100000000000000'', ''socketDisconnect'',
             OnSocketDisconnect ''deadbeefcafebabe0100000000000000''),
            (ClientE ''deadbeefcafebabe0100000000000000'', ''checkBan'',
             OnCheckBan ''deadbeefcafebabe0100000000000000''),
            (ClientE ''deadbeefcafebabe0100000000000000'', ''triggerBan'',
             OnTriggerBan ''deadbeefcafebabe0100000000000000''),
            (SocketE 7, ''data'', OnData ''deadbeefcafebabe0100000000000000''),
            (SocketE 7, ''close'', OnClose),
            (SocketE 7, ''error'', OnError)],
         emitted :=
           [(ServerE, ''client.connected'', ''deadbeefcafebabe0100000000000000''),
            (ClientE ''deadbeefcafebabe0100000000000000'', ''checkBan'', [])] \<rparr>"

section \<open>Facts about buffers\<close>

lemma hexDecode_length:
  "isHex s \<Longrightarrow> length (hexDecode s) = length s div 2"
  by (induction s rule: hexDecode.induct) (auto simp: isHex_def split: option.splits)

lemma buf_write_hex_append:
  assumes "length pre = offset" "length (hexDecode s) = len" "len \<le> length post"
  shows "buf_write_hex (pre @ post) s offset len = pre @ hexDecode s @ drop len post"
  using assms by (simp add: buf_write_hex_def Let_def min_def)

lemma writeUInt32BE_append:
  assumes "length pre = offset"
  shows "writeUInt32BE (pre @ post) v offset = pre @ be_bytes 4 (unat v) @ drop 4 post"
  using assms by (simp add: writeUInt32BE_def)

lemma length_le_bytes: "length (le_bytes k n) = k"
  by (simp add: le_bytes_def)

lemma byte_split: "(n::nat) mod 256 + 256 * (n div 256) = n"
  by simp

lemma le_val_le_bytes4: "n < 2 ^ 32 \<Longrightarrow> le_val (le_bytes 4 n) = n"
proof -
  assume n: "n < 2 ^ 32"
  have up: "[0..<4] = [0, 1, 2, 3::nat]" by (simp add: upt_rec)
  have "n div 16777216 < 256" using n by simp
  then have m: "n div 16777216 mod 256 = n div 16777216" by simp
  have d1: "n div 65536 = n div 256 div 256" by (simp add: div_mult2_eq)
  have d2: "n div 16777216 = n div 256 div 256 div 256" by (simp add: div_mult2_eq)
  have "le_val (le_bytes 4 n) =
          n mod 256 + 256 * (n div 256 mod 256 + 256 * (n div 65536 mod 256 + 256 * (n div 16777216)))"
    unfolding le_val_def le_bytes_def up by (simp add: unat_of_nat m)
  also have "\<dots> = n" unfolding d1 d2 by (simp only: byte_split)
  finally show ?thesis .
qed

lemma readUInt32LE_le_bytes:
  "readUInt32LE (le_bytes 4 (unat (v :: 32 word)) @ rest) 0 = Inr v"
proof -
  have "unat v < 2 ^ 32" using unsigned_less [of v] by simp
  then have "le_val (le_bytes 4 (unat v)) = unat v" by (rule le_val_le_bytes4)
  then show ?thesis by (simp add: readUInt32LE_def length_le_bytes)
qed

section \<open>Submission de-duplication\<close>

lemma registerSubmit_fst:
  "fst (registerSubmit a b c d t) = (a @ b @ c @ d \<notin> set (submits t))"
  by (simp add: registerSubmit_def Let_def)

lemma registerSubmit_submits:
  "set (submits (snd (registerSubmit a b c d t))) = insert (a @ b @ c @ d) (set (submits t))"
  by (auto simp: registerSubmit_def Let_def)

lemma registerSubmits_Cons:
  "fst (registerSubmits ((e1, e2, nT, n) # cs) t) =
     fst (registerSubmit e1 e2 nT n t)
     # fst (registerSubmits cs (snd (registerSubmit e1 e2 nT n t)))"
  by (simp split: prod.splits)

lemma registerSubmits_nth:
  "i < length cs \<Longrightarrow>
   fst (registerSubmits cs t) ! i =
     (fingerprint (cs ! i) \<notin> set (submits t) \<union> fingerprint ` set (take i cs))"
proof (induction cs arbitrary: t i)
  case Nil
  then show ?case by simp
next
  case (Cons c cs)
  obtain e1 e2 nT n where c: "c = (e1, e2, nT, n)" by (cases c) auto
  let ?t' = "snd (registerSubmit e1 e2 nT n t)"
  have fp: "fingerprint c = e1 @ e2 @ nT @ n" by (simp add: c fingerprint_def)
  show ?case
  proof (cases i)
    case 0
    then show ?thesis
      by (simp only: c registerSubmits_Cons nth_Cons_0 registerSubmit_fst take_0 fp [unfolded c])
         simp
  next
    case (Suc j)
    then have "j < length cs" using Cons.prems by simp
    from Cons.IH [OF this, of ?t'] show ?thesis
      unfolding Suc c registerSubmits_Cons nth_Cons_Suc registerSubmit_submits
      using fp [unfolded c] by auto
  qed
qed

lemma fingerprint_inj:
  "sameWidths c d \<Longrightarrow> (fingerprint c = fingerprint d) = (c = d)"
  by (auto simp: sameWidths_def fingerprint_def split: prod.splits)

lemma fingerprint_earlier:
  assumes i: "i < length cs" and w: "\<forall>j<i. sameWidths (cs ! j) (cs ! i)"
  shows "(fingerprint (cs ! i) \<in> fingerprint ` set (take i cs)) = (cs ! i \<in> set (take i cs))"
proof
  assume "fingerprint (cs ! i) \<in> fingerprint ` set (take i cs)"
  then obtain d where d: "d \<in> set (take i cs)" "fingerprint (cs ! i) = fingerprint d"
    by auto
  from d(1) obtain j where j: "j < i" "d = cs ! j"
    using i by (auto simp: in_set_conv_nth)
  with w have "sameWidths d (cs ! i)" by simp
  from fingerprint_inj [OF this] d(2) have "d = cs ! i" by simp
  with d(1) show "cs ! i \<in> set (take i cs)" by simp
next
  assume "cs ! i \<in> set (take i cs)"
  then show "fingerprint (cs ! i) \<in> fingerprint ` set (take i cs)" by (rule imageI)
qed

text \<open>
  C1 (as amended). A call of \<open>registerSubmit\<close> returns true exactly when the
  concatenation of its four arguments is not yet among the template's fingerprints, that
  is, was neither there before the sequence nor produced by an earlier call. Where all
  earlier tuples have the same field widths as this one and the template started empty,
  that is the same as: the tuple itself was not submitted before.
\<close>

theorem registerSubmit_true_once_per_fingerprint:
  assumes "i < length cs"
  shows "fst (registerSubmits cs t) ! i =
           (fingerprint (cs ! i) \<notin> set (submits t) \<union> fingerprint ` set (take i cs))
         \<and> ((\<forall>j<i. sameWidths (cs ! j) (cs ! i)) \<and> submits t = [] \<longrightarrow>
              fst (registerSubmits cs t) ! i = (cs ! i \<notin> set (take i cs)))"
  using registerSubmits_nth [OF assms, of t] fingerprint_earlier [OF assms]
  by auto

theorem registerSubmit_true_once_per_fingerprint_witness:
  "(2::nat) < length [(''ab'', ''cd'', ''5f000000'', ''00000000''),
                      (''ab'', ''ce'', ''5f000000'', ''00000000''),
                      (''ab'', ''cd'', ''5f000000'', ''00000000'')]
   \<and> submits exampleTemplate = []
   \<and> fst (registerSubmits [(''ab'', ''cd'', ''5f000000'', ''00000000''),
                            (''ab'', ''ce'', ''5f000000'', ''00000000''),
                            (''ab'', ''cd'', ''5f000000'', ''00000000'')] exampleTemplate) ! 2
     = False"
  using registerSubmit_true_once_per_fingerprint
          [of 2 "[(''ab'', ''cd'', ''5f000000'', ''00000000''),
                  (''ab'', ''ce'', ''5f000000'', ''00000000''),
                  (''ab'', ''cd'', ''5f000000'', ''00000000'')]" exampleTemplate]
  by (simp add: exampleTemplate_def BlockTemplate_new_def fingerprint_def)

text \<open>
  C1 as stated fails: two different tuples of hex strings with the same concatenation.
  The second call is the first submission of its tuple and returns false.
\<close>

theorem registerSubmit_distinct_tuples_counterexample:
  "(''0000'', ''00000001'', ''5f000000'', ''00000000'')
     \<noteq> (''00000000'', ''0001'', ''5f000000'', ''00000000'')
   \<and> fst (registerSubmits [(''0000'', ''00000001'', ''5f000000'', ''00000000''),
                            (''00000000'', ''0001'', ''5f000000'', ''00000000'')]
            exampleTemplate) = [True, False]"
  by (simp add: exampleTemplate_def BlockTemplate_new_def registerSubmit_def)

section \<open>Header and block serialization\<close>

lemma serializeHeader_layout:
  assumes mr: "isHex merkleRoot" "length merkleRoot = 64"
      and nt: "isHex nTime" "length nTime = 8"
      and no: "isHex nonce" "length nonce = 8"
      and bi: "isHex (bits (rpcData t))" "length (bits (rpcData t)) = 8"
      and ph: "isHex (previousblockhash (rpcData t))"
              "length (previousblockhash (rpcData t)) = 64"
  shows "serializeHeader t merkleRoot nTime nonce =
           le_bytes 4 (unat (version (rpcData t)))
           @ rev (hexDecode (previousblockhash (rpcData t)))
           @ rev (hexDecode merkleRoot)
           @ rev (hexDecode nTime)
           @ rev (hexDecode (bits (rpcData t)))
           @ rev (hexDecode nonce)"
proof -
  let ?N = "hexDecode nonce" and ?B = "hexDecode (bits (rpcData t))"
  let ?T = "hexDecode nTime" and ?M = "hexDecode merkleRoot"
  let ?P = "hexDecode (previousblockhash (rpcData t))"
  have lN: "length ?N = 4" using no by (simp add: hexDecode_length)
  have lB: "length ?B = 4" using bi by (simp add: hexDecode_length)
  have lT: "length ?T = 4" using nt by (simp add: hexDecode_length)
  have lM: "length ?M = 32" using mr by (simp add: hexDecode_length)
  have lP: "length ?P = 32" using ph by (simp add: hexDecode_length)
  have w1: "buf_write_hex (replicate 80 0) nonce 0 4 = ?N @ replicate 76 0"
    using buf_write_hex_append [of "[]" 0 nonce 4 "replicate 80 0"] lN by simp
  have w2: "buf_write_hex (?N @ replicate 76 0) (bits (rpcData t)) 4 4
              = ?N @ ?B @ replicate 72 0"
    using buf_write_hex_append [of ?N 4 "bits (rpcData t)" 4 "replicate 76 0"] lN lB by simp
  have w3: "buf_write_hex (?N @ ?B @ replicate 72 0) nTime 8 4
              = ?N @ ?B @ ?T @ replicate 68 0"
    using buf_write_hex_append [of "?N @ ?B" 8 nTime 4 "replicate 72 0"] lN lB lT by simp
  have w4: "buf_write_hex (?N @ ?B @ ?T @ replicate 68 0) merkleRoot 12 32
              = ?N @ ?B @ ?T @ ?M @ replicate 36 0"
    using buf_write_hex_append [of "?N @ ?B @ ?T" 12 merkleRoot 32 "replicate 68 0"]
      lN lB lT lM by simp
  have w5: "buf_write_hex (?N @ ?B @ ?T @ ?M @ replicate 36 0)
              (previousblockhash (rpcData t)) 44 32
              = ?N @ ?B @ ?T @ ?M @ ?P @ replicate 4 0"
    using buf_write_hex_append [of "?N @ ?B @ ?T @ ?M" 44 "previousblockhash (rpcData t)" 32
        "replicate 36 0"] lN lB lT lM lP by simp
  have w6: "writeUInt32BE (?N @ ?B @ ?T @ ?M @ ?P @ replicate 4 0) (version (rpcData t)) 76
              = ?N @ ?B @ ?T @ ?M @ ?P @ be_bytes 4 (unat (version (rpcData t)))"
    using writeUInt32BE_append [of "?N @ ?B @ ?T @ ?M @ ?P" 76 "replicate 4 0"
        "version (rpcData t)"] lN lB lT lM lP by simp
  show ?thesis
    unfolding serializeHeader_def Let_def w1 w2 w3 w4 w5 w6 reverseBuffer_def
    by (simp add: be_bytes_def)
qed

text \<open>
  C2. For a template whose \<open>bits\<close> and \<open>previousblockhash\<close> are hex strings of 4 and 32
  bytes, and hex arguments \<open>merkleRoot\<close> (32 bytes), \<open>nTime\<close> (4 bytes) and \<open>nonce\<close>
  (4 bytes), \<open>serializeHeader\<close> returns 80 bytes laid out as version, previous hash,
  Merkle root, time, bits, nonce; each field is the byte reversal of its input (the
  version is little-endian), so reading the version little-endian and reversing each
  other field gives back the bytes of the inputs.
\<close>

theorem serializeHeader_80_bytes_layout:
  assumes "isHex merkleRoot" "length merkleRoot = 64"
      and "isHex nTime" "length nTime = 8"
      and "isHex nonce" "length nonce = 8"
      and "isHex (bits (rpcData t))" "length (bits (rpcData t)) = 8"
      and "isHex (previousblockhash (rpcData t))"
          "length (previousblockhash (rpcData t)) = 64"
  shows "length (serializeHeader t merkleRoot nTime nonce) = 80
       \<and> serializeHeader t merkleRoot nTime nonce =
           le_bytes 4 (unat (version (rpcData t)))
           @ rev (hexDecode (previousblockhash (rpcData t)))
           @ rev (hexDecode merkleRoot)
           @ rev (hexDecode nTime)
           @ rev (hexDecode (bits (rpcData t)))
           @ rev (hexDecode nonce)
       \<and> readUInt32LE (serializeHeader t merkleRoot nTime nonce) 0
           = Inr (version (rpcData t))
       \<and> rev (take 32 (drop 4 (serializeHeader t merkleRoot nTime nonce)))
           = hexDecode (previousblockhash (rpcData t))
       \<and> rev (take 32 (drop 36 (serializeHeader t merkleRoot nTime nonce)))
           = hexDecode merkleRoot
       \<and> rev (take 4 (drop 68 (serializeHeader t merkleRoot nTime nonce)))
           = hexDecode nTime
       \<and> rev (take 4 (drop 72 (serializeHeader t merkleRoot nTime nonce)))
           = hexDecode (bits (rpcData t))
       \<and> rev (take 4 (drop 76 (serializeHeader t merkleRoot nTime nonce)))
           = hexDecode nonce"
proof -
  let ?N = "hexDecode nonce" and ?B = "hexDecode (bits (rpcData t))"
  let ?T = "hexDecode nTime" and ?M = "hexDecode merkleRoot"
  let ?P = "hexDecode (previousblockhash (rpcData t))"
  have lN: "length ?N = 4" using assms by (simp add: hexDecode_length)
  have lB: "length ?B = 4" using assms by (simp add: hexDecode_length)
  have lT: "length ?T = 4" using assms by (simp add: hexDecode_length)
  have lM: "length ?M = 32" using assms by (simp add: hexDecode_length)
  have lP: "length ?P = 32" using assms by (simp add: hexDecode_length)
  note lay = serializeHeader_layout [OF assms]
  have c1: "length (serializeHeader t merkleRoot nTime nonce) = 80"
    unfolding lay by (simp add: length_le_bytes lN lB lT lM lP)
  have c3: "readUInt32LE (serializeHeader t merkleRoot nTime nonce) 0
              = Inr (version (rpcData t))"
    unfolding lay by (rule readUInt32LE_le_bytes)
  have c4: "rev (take 32 (drop 4 (serializeHeader t merkleRoot nTime nonce))) = ?P"
    unfolding lay by (simp add: length_le_bytes lP)
  have c5: "rev (take 32 (drop 36 (serializeHeader t merkleRoot nTime nonce))) = ?M"
    unfolding lay by (simp add: length_le_bytes lP lM)
  have c6: "rev (take 4 (drop 68 (serializeHeader t merkleRoot nTime nonce))) = ?T"
    unfolding lay by (simp add: length_le_bytes lP lM lT)
  have c7: "rev (take 4 (drop 72 (serializeHeader t merkleRoot nTime nonce))) = ?B"
    unfolding lay by (simp add: length_le_bytes lP lM lT lB)
  have c8: "rev (take 4 (drop 76 (serializeHeader t merkleRoot nTime nonce))) = ?N"
    unfolding lay by (simp add: length_le_bytes lP lM lT lB lN)
  from c1 lay c3 c4 c5 c6 c7 c8 show ?thesis by blast
qed

lemma isHex_examples:
  "isHex ''0000000000000000000000000000000000000000000000000000000000000002''"
  "isHex ''0000000000000000000000000000000000000000000000000000000000000001''"
  "isHex ''5f000000''" "isHex ''00000000''" "isHex ''1d00ffff''"
  by (simp_all add: isHex_def hexVal_def)

theorem serializeHeader_80_bytes_layout_witness:
  "isHex ''0000000000000000000000000000000000000000000000000000000000000002''
   \<and> isHex ''5f000000'' \<and> isHex ''00000000''
   \<and> isHex (bits (rpcData exampleTemplate))
   \<and> isHex (previousblockhash (rpcData exampleTemplate))
   \<and> length (serializeHeader exampleTemplate
        ''0000000000000000000000000000000000000000000000000000000000000002''
        ''5f000000'' ''00000000'') = 80
   \<and> readUInt32LE (serializeHeader exampleTemplate
        ''0000000000000000000000000000000000000000000000000000000000000002''
        ''5f000000'' ''00000000'') 0 = Inr 0x20000000
   \<and> rev (take 4 (drop 72 (serializeHeader exampleTemplate
        ''0000000000000000000000000000000000000000000000000000000000000002''
        ''5f000000'' ''00000000''))) = [0x1d, 0x00, 0xff, 0xff]"
proof -
  have rpc: "bits (rpcData exampleTemplate) = ''1d00ffff''"
    "previousblockhash (rpcData exampleTemplate)
       = ''0000000000000000000000000000000000000000000000000000000000000001''"
    "version (rpcData exampleTemplate) = 0x20000000"
    by (simp_all add: exampleTemplate_def BlockTemplate_new_def exampleRpcData_def)
  have bits: "hexDecode ''1d00ffff'' = [0x1d, 0x00, 0xff, 0xff]"
    by (simp add: hexVal_def)
  have len: "length ''0000000000000000000000000000000000000000000000000000000000000002'' = 64"
    "length ''5f000000'' = 8" "length ''00000000'' = 8" "length ''1d00ffff'' = 8"
    "length ''0000000000000000000000000000000000000000000000000000000000000001'' = 64"
    by simp_all
  note T = serializeHeader_80_bytes_layout
            [of "''0000000000000000000000000000000000000000000000000000000000000002''"
                "''5f000000''" "''00000000''" exampleTemplate, unfolded rpc,
             OF isHex_examples(1) len(1) isHex_examples(3) len(2) isHex_examples(4) len(3)
                isHex_examples(5) len(4) isHex_examples(2) len(5)]
  show ?thesis
    unfolding rpc bits [symmetric] using T isHex_examples by blast
qed

text \<open>
  C5. \<open>serializeBlock\<close> is the header, the CompactSize of the number of transactions
  plus one, the coinbase, the transaction data, the vote data, and one zero byte when the
  reward is \<open>'POS'\<close>; the vote data is empty unless \<open>masternode_payments\<close> is set, and
  then is the CompactSize of the number of votes followed by the decoded votes. The
  transaction-count field directly behind the header is that of the list length plus one.
\<close>

theorem serializeBlock_layout:
  "serializeBlock t header coinbase =
     header
     @ varIntBuffer (length (transactions (rpcData t)) + 1)
     @ coinbase
     @ transactionData t
     @ (if masternode_payments (rpcData t)
        then varIntBuffer (length (votes (rpcData t)))
             @ concat (map hexDecode (votes (rpcData t)))
        else [])
     @ (if reward t = ''POS'' then [0] else [])
   \<and> take (length (varIntBuffer (length (transactions (rpcData t)) + 1)))
        (drop (length header) (serializeBlock t header coinbase))
       = varIntBuffer (length (transactions (rpcData t)) + 1)"
  by (simp add: serializeBlock_def getVoteData_def)


section \<open>The session's \<open>'data'\<close> listener\<close>

text \<open>
  C10. When the receive buffer with the new chunk appended is longer than 10240 bytes,
  the session clears the buffer, emits \<open>socketFlooded\<close> and destroys the socket, and does
  nothing else: whatever \<open>JSON.parse\<close> and \<open>handleMessage\<close> are, no line of the buffer
  is parsed or dispatched, whether or not the buffer holds line feeds and complete
  messages.
\<close>

theorem onData_flood_before_dispatch:
  assumes "length (dataBuffer c @ d) > 10240"
  shows "onData rt d c =
           c\<lparr>dataBuffer := [], effects := effects c @ [Emit ''socketFlooded'' [], SocketDestroy]\<rparr>"
  using assms by (simp add: onData_def Let_def socket_destroy_def client_emit_def)

theorem onData_flood_before_dispatch_witness:
  "length (dataBuffer exampleClient @ concat (replicate 3414 (''{}'' @ [newline]))) > 10240
   \<and> newline \<in> set (concat (replicate 3414 (''{}'' @ [newline])))
   \<and> JSON_parse exampleRuntime ''{}'' = Some ()
   \<and> onData exampleRuntime (concat (replicate 3414 (''{}'' @ [newline]))) exampleClient =
       exampleClient\<lparr>dataBuffer := [],
                      effects := [Emit ''socketFlooded'' [], SocketDestroy]\<rparr>"
proof -
  have len: "length (dataBuffer exampleClient @ concat (replicate 3414 (''{}'' @ [newline])))
               = 10242"
    by (simp add: exampleClient_def length_concat sum_list_replicate)
  then have big: "length (dataBuffer exampleClient @ concat (replicate 3414 (''{}'' @ [newline])))
               > 10240"
    by simp
  have nl: "newline \<in> set (concat (replicate 3414 (''{}'' @ [newline])))"
    by simp
  have eff: "effects exampleClient = []" by (simp add: exampleClient_def)
  from onData_flood_before_dispatch [OF big, of exampleRuntime] big nl eff show ?thesis
    by (simp add: exampleRuntime_def)
qed

lemma split_on_no_sep: "sep \<notin> set s \<Longrightarrow> split_on sep s = [s]"
  by (induction s) auto

lemma split_on_line: "sep \<notin> set s \<Longrightarrow> split_on sep (s @ [sep]) = [s, []]"
  by (induction s) auto

lemma handleLine_empty: "handleLine rt d [] c = c"
  by (simp add: handleLine_def)

text \<open>A chunk that is one complete line, arriving on an empty buffer.\<close>

lemma onData_one_line:
  assumes "dataBuffer c = []" "newline \<notin> set message" "length message < 10240"
  shows "onData rt (message @ [newline]) c
           = (handleLine rt (message @ [newline]) message
                (c\<lparr>dataBuffer := message @ [newline]\<rparr>))\<lparr>dataBuffer := []\<rparr>"
  using assms
  by (simp add: onData_def Let_def split_on_line handleLine_empty)

text \<open>
  C7 (as amended). A non-empty line that \<open>JSON.parse\<close> rejects makes the session emit
  \<open>malformedMessage\<close> with the line and destroy the socket, except that the session
  stays silent exactly when TCP-proxy mode is enabled and the chunk being processed
  begins with \<open>PROXY\<close>.
\<close>

theorem handleLine_malformed:
  assumes "message \<noteq> []" and "JSON_parse rt message = None"
  shows "handleLine rt d message c =
           (if tcpProxyProtocol c \<and> startsWith ''PROXY'' d then c
            else c\<lparr>effects := effects c @ [Emit ''malformedMessage'' message, SocketDestroy]\<rparr>)
         \<and> (dataBuffer c = [] \<and> newline \<notin> set message \<and> length message < 10240 \<longrightarrow>
              onData rt (message @ [newline]) c =
                (if tcpProxyProtocol c \<and> startsWith ''PROXY'' (message @ [newline]) then c
                 else c\<lparr>effects :=
                         effects c @ [Emit ''malformedMessage'' message, SocketDestroy]\<rparr>))"
proof -
  have line: "handleLine rt d message c =
           (if tcpProxyProtocol c \<and> startsWith ''PROXY'' d then c
            else c\<lparr>effects := effects c @ [Emit ''malformedMessage'' message, SocketDestroy]\<rparr>)"
    for d c
    using assms by (simp add: handleLine_def socket_destroy_def client_emit_def)
  have "onData rt (message @ [newline]) c =
          (if tcpProxyProtocol c \<and> startsWith ''PROXY'' (message @ [newline]) then c
           else c\<lparr>effects := effects c @ [Emit ''malformedMessage'' message, SocketDestroy]\<rparr>)"
    if "dataBuffer c = []" "newline \<notin> set message" "length message < 10240"
  proof -
    have "onData rt (message @ [newline]) c
            = (handleLine rt (message @ [newline]) message
                 (c\<lparr>dataBuffer := message @ [newline]\<rparr>))\<lparr>dataBuffer := []\<rparr>"
      using onData_one_line [OF that(1-3)] .
    also have "\<dots> = (if tcpProxyProtocol c \<and> startsWith ''PROXY'' (message @ [newline]) then c
           else c\<lparr>effects := effects c @ [Emit ''malformedMessage'' message, SocketDestroy]\<rparr>)"
      unfolding line using that(1) by simp
    finally show ?thesis .
  qed
  with line show ?thesis by blast
qed

theorem handleLine_malformed_witness:
  "''PROXY TCP4 1.2.3.4 5.6.7.8 1 2'' \<noteq> []
   \<and> JSON_parse exampleRuntime ''PROXY TCP4 1.2.3.4 5.6.7.8 1 2'' = None
   \<and> dataBuffer (exampleClient\<lparr>tcpProxyProtocol := True\<rparr>) = []
   \<and> newline \<notin> set ''PROXY TCP4 1.2.3.4 5.6.7.8 1 2''
   \<and> onData exampleRuntime (''PROXY TCP4 1.2.3.4 5.6.7.8 1 2'' @ [newline])
        (exampleClient\<lparr>tcpProxyProtocol := True\<rparr>)
       = exampleClient\<lparr>tcpProxyProtocol := True\<rparr>
   \<and> handleLine exampleRuntime (''PROXY TCP4 1.2.3.4 5.6.7.8 1 2'' @ [newline])
        ''PROXY TCP4 1.2.3.4 5.6.7.8 1 2'' (exampleClient\<lparr>tcpProxyProtocol := True\<rparr>)
       = exampleClient\<lparr>tcpProxyProtocol := True\<rparr>"
  using handleLine_malformed
          [of "''PROXY TCP4 1.2.3.4 5.6.7.8 1 2''" exampleRuntime
              "''PROXY TCP4 1.2.3.4 5.6.7.8 1 2'' @ [newline]"
              "exampleClient\<lparr>tcpProxyProtocol := True\<rparr>"]
  by (simp add: exampleRuntime_def startsWith_def exampleClient_def newline_def)

text \<open>
  C7 as stated fails: with TCP-proxy mode disabled, a chunk that begins with \<open>PROXY\<close>
  and is not JSON is not passed over in silence; the session emits \<open>malformedMessage\<close>
  and destroys the socket.
\<close>

theorem onData_proxy_line_proxy_disabled_counterexample:
  "\<not> tcpProxyProtocol exampleClient
   \<and> startsWith ''PROXY'' (''PROXY TCP4 1.2.3.4 5.6.7.8 1 2'' @ [newline])
   \<and> JSON_parse exampleRuntime ''PROXY TCP4 1.2.3.4 5.6.7.8 1 2'' = None
   \<and> onData exampleRuntime (''PROXY TCP4 1.2.3.4 5.6.7.8 1 2'' @ [newline]) exampleClient
       = exampleClient\<lparr>effects := [Emit ''malformedMessage'' ''PROXY TCP4 1.2.3.4 5.6.7.8 1 2'',
                                     SocketDestroy]\<rparr>"
  by (simp add: exampleClient_def exampleRuntime_def startsWith_def onData_def Let_def
        newline_def handleLine_def socket_destroy_def client_emit_def)

section \<open>Difficulty staging and job broadcast\<close>

lemma enqueueNextDifficulty_stages:
  "pendingDifficulty (snd (enqueueNextDifficulty d c)) = Some d"
  "effects (snd (enqueueNextDifficulty d c)) = effects c"
  by (simp_all add: enqueueNextDifficulty_def)

text \<open>
  With any session registered, \<open>broadcastMiningJobs\<close> throws at the first one and leaves
  the server and every session as they were: nothing is written to a socket, a staged
  difficulty stays staged, and the rebroadcast timer is not touched.
\<close>

lemma broadcastMiningJobs_first_client_throws:
  "stratumClients w \<noteq> [] \<Longrightarrow> broadcastMiningJobs params w = Thrown TypeError w"
proof -
  assume "stratumClients w \<noteq> []"
  then obtain clientId ref rest where cs: "stratumClients w = (clientId, ref) # rest"
    by (cases "stratumClients w") auto
  have "broadcast_loop params ((clientId, ref) # rest) w = Thrown TypeError w"
    by (simp add: sendMiningJob_def split: option.splits)
  then show ?thesis by (simp add: broadcastMiningJobs_def cs)
qed

lemma broadcastMiningJobs_no_clients:
  "stratumClients w = [] \<Longrightarrow> options w = Some opts \<Longrightarrow>
   broadcastMiningJobs params w =
     Done (w\<lparr>rebroadcastTimeout := Some (jobRebroadcastTimeout opts * 1000)\<rparr>)"
  by (simp add: broadcastMiningJobs_def)

text \<open>
  C3 fails on the code. A session with current difficulty 16 is registered and a
  difficulty of 32 is staged on it by \<open>enqueueNextDifficulty\<close>. The broadcast calls
  \<open>client.sendMiningJob\<close>, which no \<open>StratumClient\<close> has: it throws a \<open>TypeError\<close> at
  this first session and leaves everything as it was. No \<open>mining.set_difficulty\<close> and
  no \<open>mining.notify\<close> is written, and the difficulty stays staged.
\<close>

theorem broadcastMiningJobs_throws_with_difficulty_staged:
  "map_option pendingDifficulty
     (map_of (heap exampleServerStaged) (subscriptionId exampleClient)) = Some (Some 32)
   \<and> map_option difficulty
       (map_of (heap exampleServerStaged) (subscriptionId exampleClient)) = Some (Some 16)
   \<and> map_option effects
       (map_of (heap exampleServerStaged) (subscriptionId exampleClient)) = Some []
   \<and> broadcastMiningJobs exampleJobParams exampleServerStaged
       = Thrown TypeError exampleServerStaged"
proof -
  have "stratumClients exampleServerStaged \<noteq> []"
    by (simp add: exampleServerStaged_def)
  then have "broadcastMiningJobs exampleJobParams exampleServerStaged
               = Thrown TypeError exampleServerStaged"
    by (rule broadcastMiningJobs_first_client_throws)
  then show ?thesis
    by (simp add: exampleServerStaged_def exampleClient_def enqueueNextDifficulty_def)
qed

section \<open>Construction of the server\<close>

text \<open>
  C9 fails on the code. The constructor never assigns \<open>this.options\<close>, and \<open>init\<close>
  begins by reading \<open>this.options.banning\<close>: for every configuration the constructor
  throws a \<open>TypeError\<close>, no \<open>listen\<close> call has been made and no event, \<open>started\<close> or
  other, has been emitted.
\<close>

theorem StratumServer_new_throws:
  "\<exists>w. StratumServer_new opts = Thrown TypeError w
       \<and> options w = None \<and> listenCalls w = [] \<and> emitted w = []"
  by (simp add: StratumServer_new_def init_def)

text \<open>
  What \<open>init\<close> and the \<open>listen\<close> callback do on a server object whose \<open>options\<close> hold the
  configuration: one \<open>listen\<close> for each port; a callback that is not the last emits
  nothing; the last one emits \<open>started\<close>.
\<close>

lemma init_with_options:
  "options w = Some opts \<Longrightarrow>
   \<exists>w1. init w = Done w1 \<and> listenCalls w1 = listenCalls w @ ports opts
        \<and> serversStarted w1 = 0 \<and> emitted w1 = emitted w \<and> options w1 = Some opts"
  by (auto simp: init_def Let_def split: option.splits)

lemma onListening_not_last:
  "options w = Some opts \<Longrightarrow> serversStarted w + 1 \<noteq> length (ports opts) \<Longrightarrow>
   onListening fuel rt now w = Done (w\<lparr>serversStarted := serversStarted w + 1\<rparr>)"
  by (simp add: onListening_def Let_def)

lemma onListening_last:
  "options w = Some opts \<Longrightarrow> serversStarted w + 1 = length (ports opts) \<Longrightarrow>
   listeners_of ServerE ''started'' w = [] \<Longrightarrow>
   onListening (Suc fuel) rt now w =
     Done (w\<lparr>serversStarted := serversStarted w + 1,
             emitted := emitted w @ [(ServerE, ''started'', [])]\<rparr>)"
  by (simp add: onListening_def Let_def listeners_of_def)

section \<open>The ban table\<close>

lemma purgeSweep_filter:
  "options w = Some opts \<Longrightarrow> banning opts = Some b \<Longrightarrow>
   purgeSweep now w =
     Done (w\<lparr>bannedIPs := filter (\<lambda>(ip, banTime). now - banTime \<le> time b) (bannedIPs w)\<rparr>)"
  by (cases "bannedIPs w = []") (auto simp: purgeSweep_def not_less intro!: filter_cong)

text \<open>
  C6 fails on the code. With \<open>banning.time\<close> of 600 seconds, an address banned at time 0
  is removed by a sweep that runs at 1000 milliseconds, one second into the ban: the
  sweep compares the elapsed milliseconds with the configured number of seconds.
  \<open>bannedMS\<close>, which \<open>checkBan\<close> uses, is 600000 for the same configuration.
\<close>

theorem purgeSweep_removes_one_second_old_ban:
  "map_option time (banning exampleOptions) = Some 600
   \<and> bannedMS exampleServer = Some 600000
   \<and> purgeSweep 1000 (exampleServer\<lparr>bannedIPs := [(''10.0.0.1'', 0)]\<rparr>)
       = Done (exampleServer\<lparr>bannedIPs := []\<rparr>)"
  by (simp add: purgeSweep_def exampleServer_def exampleOptions_def)

section \<open>Accepting a connection and closing its socket\<close>

lemma SubscriptionCounter_next_0:
  "SubscriptionCounter_next 0 = (''deadbeefcafebabe0100000000000000'', 1)"
proof -
  have big: "((2::nat) ^ 53 - 1) * 2 ^ 971 \<noteq> 1" by simp
  have small: "(0::nat) < 2 ^ 53" by simp
  have hex: "hexEncode (packInt64LE 1) = ''0100000000000000''"
    by (simp add: packInt64LE_def le_bytes_def hexEncode_def hexDigit_def upt_rec)
  show ?thesis
    unfolding SubscriptionCounter_next_def Let_def using big small hex by simp
qed

lemma exampleServer_fields:
  "options exampleServer = Some exampleOptions"
  "subscriptionCounter exampleServer = 0"
  "stratumClients exampleServer = []"
  "heap exampleServer = []"
  "listeners exampleServer = []"
  "emitted exampleServer = []"
  "bannedIPs exampleServer = []"
  "opt_tcpProxyProtocol exampleOptions = False"
  "banning exampleOptions \<noteq> None"
  by (simp_all add: exampleServer_def exampleOptions_def)

lemma handleNewClient_example:
  "handleNewClient 2 exampleRuntime 1000 7 (JStr ''10.0.0.1'') exampleServer =
     Done exampleServerAccepted"
proof -
  have two: "(2::nat) = Suc (Suc 0)" by simp
  show ?thesis
    unfolding handleNewClient_def two exampleServerAccepted_def
    by (simp add: SubscriptionCounter_next_0 exampleServer_fields Let_def listeners_of_def
          on_def setupSocket_def checkBan_def exampleOptions_def)
qed

lemma emit_2: "emit 2 rt now e ev arg w = emit (Suc (Suc 0)) rt now e ev arg w"
  by (simp add: numeral_2_eq_2)

text \<open>
  C4 fails on the code. A connection is accepted and its socket closes. The \<open>'close'\<close>
  listener is a \<open>function\<close>, so it emits \<open>socketDisconnect\<close> on the socket, where
  nothing listens, not on the client: the server's listener does not run, the entry of
  the session stays in \<open>stratumClients\<close>, and \<open>client.disconnected\<close> is not emitted.
\<close>

theorem socket_close_keeps_client_registered:
  "handleNewClient 2 exampleRuntime 1000 7 (JStr ''10.0.0.1'') exampleServer
     = Done exampleServerAccepted
   \<and> map_of (stratumClients exampleServerAccepted) ''deadbeefcafebabe0100000000000000''
       = Some ''deadbeefcafebabe0100000000000000''
   \<and> emit 2 exampleRuntime 2000 (SocketE 7) ''close'' [] exampleServerAccepted
       = Done (exampleServerAccepted
                 \<lparr>emitted := emitted exampleServerAccepted
                               @ [(SocketE 7, ''close'', []),
                                  (SocketE 7, ''socketDisconnect'', [])]\<rparr>)"
proof -
  have "emit 2 exampleRuntime 2000 (SocketE 7) ''close'' [] exampleServerAccepted
       = Done (exampleServerAccepted
                 \<lparr>emitted := emitted exampleServerAccepted
                               @ [(SocketE 7, ''close'', []),
                                  (SocketE 7, ''socketDisconnect'', [])]\<rparr>)"
    unfolding emit_2 by (simp add: listeners_of_def exampleServerAccepted_def)
  moreover have "map_of (stratumClients exampleServerAccepted)
                   ''deadbeefcafebabe0100000000000000''
                 = Some ''deadbeefcafebabe0100000000000000''"
    by (simp add: exampleServerAccepted_def)
  ultimately show ?thesis using handleNewClient_example by simp
qed

text \<open>
  The second slip on the same path: were \<open>socketDisconnect\<close> emitted on the client, the
  server's listener would delete the key of \<open>this.subscriptionId\<close>, which is
  \<open>undefined\<close> on the server, and the entry of the session would stay all the same.
\<close>

lemma client_socketDisconnect_keeps_client_registered:
  "emit 2 exampleRuntime 2000 (ClientE ''deadbeefcafebabe0100000000000000'')
     ''socketDisconnect'' [] exampleServerAccepted
   = Done (exampleServerAccepted
             \<lparr>emitted := emitted exampleServerAccepted
                 @ [(ClientE ''deadbeefcafebabe0100000000000000'', ''socketDisconnect'', []),
                    (ServerE, ''client.disconnected'',
                     ''deadbeefcafebabe0100000000000000'')]\<rparr>)"
  unfolding emit_2
  by (simp add: listeners_of_def exampleServerAccepted_def removeStratumClientBySubId_def)

lemma removeStratumClientBySubId_undefined:
  "sid \<noteq> ''undefined'' \<Longrightarrow>
   map_of (stratumClients (removeStratumClientBySubId Undefined w)) sid
     = map_of (stratumClients w) sid"
  by (simp add: removeStratumClientBySubId_def delete_conv')

section \<open>Resynchronisation of the peer parser\<close>

lemma scan_aligned:
  "scan magic h = Inr h1 \<Longrightarrow> readUInt32LE h1 0 = Inr magic"
proof (induction magic h rule: scan.induct)
  case (1 magic header)
  show ?case
  proof (cases "readUInt32LE header 0")
    case (Inl e)
    with "1.prems" show ?thesis by (subst (asm) scan.simps) simp
  next
    case (Inr m)
    show ?thesis
    proof (cases "m \<noteq> magic \<and> length header \<ge> 4")
      case True
      with "1.prems" Inr have "scan magic (drop 1 header) = Inr h1"
        by (subst (asm) scan.simps) simp
      with "1.IH" [OF Inr True] show ?thesis by simp
    next
      case False
      from Inr have "length header \<ge> 4"
        by (simp add: readUInt32LE_def split: if_splits)
      with False have "m = magic" by simp
      moreover from "1.prems" Inr False have "h1 = header"
        by (subst (asm) scan.simps) auto
      ultimately show ?thesis using Inr by simp
    qed
  qed
qed

lemma readUInt32LE_drop1:
  "readUInt32LE (drop (Suc 0) h) k = readUInt32LE h (Suc k)"
  by (cases h) (auto simp: readUInt32LE_def)

text \<open>
  A header in which the magic occurs at no offset: the loop ends in the read of a
  four-byte word from the last three bytes, which throws.
\<close>

lemma scan_no_alignment:
  "(\<forall>k. readUInt32LE h k \<noteq> Inr magic) \<Longrightarrow> scan magic h = Inl RangeError"
proof (induction magic h rule: scan.induct)
  case (1 magic header)
  show ?case
  proof (cases "readUInt32LE header 0")
    case (Inl e)
    then have "e = RangeError" by (simp add: readUInt32LE_def split: if_splits)
    with Inl show ?thesis by (subst scan.simps) simp
  next
    case (Inr m)
    then have len: "length header \<ge> 4"
      by (simp add: readUInt32LE_def split: if_splits)
    from "1.prems" have "readUInt32LE header 0 \<noteq> Inr magic" by blast
    with Inr have ne: "m \<noteq> magic" by simp
    from "1.prems" have "\<forall>k. readUInt32LE (drop 1 header) k \<noteq> Inr magic"
      by (simp add: readUInt32LE_drop1)
    with "1.IH" [OF Inr] ne len have "scan magic (drop 1 header) = Inl RangeError" by simp
    with Inr ne len show ?thesis by (subst scan.simps) simp
  qed
qed

text \<open>
  C8 fails on the code. Twenty-four zero bytes arrive; the magic is nowhere in them. The
  parser emits the error and then, where the claim has it resume from an empty buffer,
  throws a \<open>RangeError\<close> out of the \<open>'data'\<close> listener: the loop reads a four-byte word
  from a buffer of three bytes.
\<close>

theorem pump_no_alignment_throws:
  "onPeerData exampleSha256d (replicate 24 0) (Peer_new exampleMagic) =
     Thrown RangeError
       ((Peer_new exampleMagic)
          \<lparr>buff := replicate 24 0, events := [PeerError ''bad magic number from peer'']\<rparr>)"
proof -
  have z: "le_val (replicate n 0) = 0" for n
    by (induction n) (simp_all add: le_val_def)
  have rd0: "readUInt32LE (replicate 24 0) k = (if k + 4 \<le> 24 then Inr 0 else Inl RangeError)"
    for k
  proof (cases "k + 4 \<le> 24")
    case True
    then have "take 4 (drop k (replicate 24 (0::byte))) = replicate 4 0" by simp
    with True z [of 4] show ?thesis by (simp add: readUInt32LE_def)
  next
    case False
    then show ?thesis by (simp add: readUInt32LE_def)
  qed
  have "readUInt32LE (replicate 24 0) k \<noteq> Inr exampleMagic" for k
    unfolding rd0 by (simp add: exampleMagic_def)
  then have sc: "scan exampleMagic (replicate 24 0) = Inl RangeError"
    by (intro scan_no_alignment) simp
  have r0: "readUInt32LE (replicate 24 0) 0 = Inr 0"
    unfolding rd0 by simp
  have ne: "(0::32 word) \<noteq> exampleMagic" by (simp add: exampleMagic_def)
  have st: "reading (Peer_new exampleMagic\<lparr>buff := replicate 24 0\<rparr>) = ReadHeader"
    "buff (Peer_new exampleMagic\<lparr>buff := replicate 24 0\<rparr>) = replicate 24 0"
    "magicInt (Peer_new exampleMagic\<lparr>buff := replicate 24 0\<rparr>) = exampleMagic"
    "events (Peer_new exampleMagic\<lparr>buff := replicate 24 0\<rparr>) = []"
    by (simp_all add: Peer_new_def)
  have "pump exampleSha256d (Peer_new exampleMagic\<lparr>buff := replicate 24 0\<rparr>) =
     Thrown RangeError
       ((Peer_new exampleMagic)
          \<lparr>buff := replicate 24 0, events := [PeerError ''bad magic number from peer'']\<rparr>)"
    by (subst pump.simps) (simp add: st r0 sc ne peer_emit_def Let_def)
  then show ?thesis
    by (simp add: onPeerData_def Peer_new_def)
qed

lemma replicate6: "replicate 6 x = [x, x, x, x, x, x]"
  by (simp add: numeral_eq_Suc)

lemma example_frame_bytes:
  "junk7 @ verackFrame =
     [1, 2, 3, 4, 5, 6, 7, 0xf9, 0xbe, 0xb4, 0xd9, 118, 101, 114, 97, 99, 107,
      0, 0, 0, 0, 0, 0, 0, 0, 0, 0, 0x5d, 0xf6, 0xe0, 0xe2]"
  "take 17 verackFrame =
     [0xf9, 0xbe, 0xb4, 0xd9, 118, 101, 114, 97, 99, 107, 0, 0, 0, 0, 0, 0, 0]"
  by (simp_all add: junk7_def verackFrame_def commandStringBuffer_def
        fixedLenStringBuffer_def replicate6)

text \<open>
  The scenario of the claim, all 31 bytes in one chunk: the seven bytes read past the
  24-byte header are dropped, the parser is left waiting with 17 bytes of the frame, and
  the frame is not processed.
\<close>

lemma junk_then_verack_in_one_chunk:
  "onPeerData exampleSha256d (junk7 @ verackFrame) (Peer_new exampleMagic) =
     Done ((Peer_new exampleMagic)
             \<lparr>buff := take 17 verackFrame,
               events := [PeerError ''bad magic number from peer'']\<rparr>)"
  unfolding example_frame_bytes onPeerData_def
  by (simp add: pump.simps scan.simps Peer_new_def exampleMagic_def readUInt32LE_def
        le_val_def peer_emit_def Let_def)

text \<open>
  The same bytes in chunks of 24 and 7: nothing is read past the header, and the frame
  is processed after the one error.
\<close>

lemma junk_then_verack_in_two_chunks:
  "onPeerData exampleSha256d (take 24 (junk7 @ verackFrame)) (Peer_new exampleMagic) =
     Done ((Peer_new exampleMagic)
             \<lparr>buff := take 17 verackFrame,
               events := [PeerError ''bad magic number from peer'']\<rparr>)"
  "onPeerData exampleSha256d (drop 24 (junk7 @ verackFrame))
     ((Peer_new exampleMagic)
        \<lparr>buff := take 17 verackFrame,
          events := [PeerError ''bad magic number from peer'']\<rparr>) =
     Done ((Peer_new exampleMagic)
             \<lparr>verack := True,
               events := [PeerError ''bad magic number from peer'',
                          PeerMessage (commandStringBuffer ''verack'') [],
                          Connected]\<rparr>)"
  unfolding example_frame_bytes onPeerData_def
  by (simp_all add: pump.simps scan.simps Peer_new_def exampleMagic_def readUInt32LE_def
        le_val_def peer_emit_def Let_def slice_def HandleMessage_def exampleSha256d_def
        commandStringBuffer_def fixedLenStringBuffer_def replicate6)

end
